theory Spec2Isabelle
  imports Main "HOL-Library.Sublist"
begin

section \<open>Length resolution\<close>

text \<open>
  \<^verbatim>\<open>MAX_LENGTH = int(10000)  # Hardcoded max length to avoid infinite loop\<close>
\<close>

definition MAX_LENGTH :: int where
  "MAX_LENGTH = 10000"

text \<open>
  \<^verbatim>\<open>
  def adjust_length_to_model(length, max_sequence_length):
      if length < 0 and max_sequence_length > 0:
          length = max_sequence_length
      elif 0 < max_sequence_length < length:
          length = max_sequence_length  # No generation bigger than model size
      elif length < 0:
          length = MAX_LENGTH  # avoid infinite loop
      return length
  \<close>
  Python integers are unbounded, hence \<open>int\<close>.
\<close>

definition adjust_length_to_model :: "int \<Rightarrow> int \<Rightarrow> int" where
  "adjust_length_to_model length' max_sequence_length =
     (if length' < 0 \<and> max_sequence_length > 0 then max_sequence_length
      else if 0 < max_sequence_length \<and> max_sequence_length < length' then max_sequence_length
      else if length' < 0 then MAX_LENGTH
      else length')"

section \<open>Python string operations used by the script\<close>

text \<open>
  A Python \<open>str\<close> is modelled as \<open>string\<close>, one \<open>char\<close> per code point, which covers
  the code points below 256. Every literal of the script is ASCII.
\<close>

text \<open>
  \<open>str.isspace\<close> on one character, for the code points below 256: tab, line feed, vertical
  tab, form feed, carriage return, the four separators 28..31, space, NEL and the
  no-break space.
\<close>

definition is_space :: "char \<Rightarrow> bool" where
  "is_space c = ((of_char c :: nat) \<in> {9, 10, 11, 12, 13, 28, 29, 30, 31, 32, 133, 160})"

text \<open>\<open>s.strip()\<close>: leading and trailing whitespace removed.\<close>

definition py_strip :: "string \<Rightarrow> string" where
  "py_strip s = rev (dropWhile is_space (rev (dropWhile is_space s)))"

text \<open>
  \<open>s.split()\<close>: the maximal runs of non-whitespace characters, in order. The first
  argument is the run read so far.
\<close>

fun split_acc :: "string \<Rightarrow> string \<Rightarrow> string list" where
  "split_acc acc [] = (if acc = [] then [] else [acc])"
| "split_acc acc (c # cs) =
     (if is_space c then (if acc = [] then split_acc [] cs else acc # split_acc [] cs)
      else split_acc (acc @ [c]) cs)"

definition py_split :: "string \<Rightarrow> string list" where
  "py_split s = split_acc [] s"

text \<open>\<open>sep.join(xs)\<close>.\<close>

fun py_join :: "string \<Rightarrow> string list \<Rightarrow> string" where
  "py_join sep [] = []"
| "py_join sep [x] = x"
| "py_join sep (x # y # ys) = x @ sep @ py_join sep (y # ys)"

text \<open>
  \<open>s.find(sub)\<close>: the lowest index at which \<open>sub\<close> occurs in \<open>s\<close>, and \<open>-1\<close> when it
  does not occur.
\<close>

fun py_find :: "string \<Rightarrow> string \<Rightarrow> int" where
  "py_find [] sub = (if sub = [] then 0 else - 1)"
| "py_find (c # cs) sub =
     (if prefix sub (c # cs) then 0
      else (let r = py_find cs sub in if r < 0 then - 1 else r + 1))"

text \<open>
  \<open>s.replace(old, new)\<close>: every occurrence of \<open>old\<close>, found left to right without
  overlap in one pass over \<open>s\<close>, is replaced by \<open>new\<close>. With the empty \<open>old\<close>, \<open>new\<close> is
  put before every character and at the end.
\<close>

fun py_replace :: "string \<Rightarrow> string \<Rightarrow> string \<Rightarrow> string" where
  "py_replace [] new s = new @ concat (map (\<lambda>c. c # new) s)"
| "py_replace (a # as) new [] = []"
| "py_replace (a # as) new (c # cs) =
     (if prefix (a # as) (c # cs) then new @ py_replace (a # as) new (drop (length as) cs)
      else c # py_replace (a # as) new cs)"

text \<open>
  \<open>s[start:stop]\<close> with step 1. \<open>None\<close> is the default bound; a negative bound counts
  from the end; a bound outside the string is clamped.
\<close>

definition slice_index :: "int \<Rightarrow> int \<Rightarrow> int" where
  "slice_index n i = (if i < 0 then max 0 (i + n) else min i n)"

definition py_slice :: "string \<Rightarrow> int option \<Rightarrow> int option \<Rightarrow> string" where
  "py_slice s start stop =
     (let n = int (length s);
          lo = (case start of None \<Rightarrow> 0 | Some i \<Rightarrow> slice_index n i);
          hi = (case stop of None \<Rightarrow> n | Some j \<Rightarrow> slice_index n j)
      in take (nat (hi - lo)) (drop (nat lo) s))"

text \<open>
  \<open>s.lower()\<close>. The letters A..Z and, in the range modelled, the capital letters 192..222
  other than the multiplication sign 215 move up by 32; every other character is kept.
\<close>

definition lower_char :: "char \<Rightarrow> char" where
  "lower_char c =
     (let n = (of_char c :: nat) in
      if (65 \<le> n \<and> n \<le> 90) \<or> (192 \<le> n \<and> n \<le> 222 \<and> n \<noteq> 215) then char_of (n + 32) else c)"

definition py_lower :: "string \<Rightarrow> string" where
  "py_lower s = map lower_char s"

section \<open>Configuration, codec and language model\<close>

text \<open>
  The parsed command line (\<open>args\<close>), with the options the two drivers, the prompt
  preparation and the start-up read. \<open>'f\<close> is the type of Python floats: the script
  passes them to the generation routine and does no arithmetic on them. The option
  \<open>--length\<close> is the field \<open>length'\<close>, \<open>--k\<close> and \<open>--p\<close> are \<open>top_k\<close> and \<open>top_p\<close>, the names
  under which they are handed on. \<open>--stop_token\<close> defaults to \<open>None\<close>.
\<close>

record 'f args =
  model_type :: string
  model_name_or_path :: string
  length' :: int
  stop_token :: "string option"
  temperature :: 'f
  repetition_penalty :: 'f
  top_k :: int
  top_p :: 'f
  padding_text :: string
  seed :: int
  no_file :: bool
  prompt_file :: string
  output_file :: string

text \<open>
  The codec: \<open>encode\<close> gives the token ids of a text (\<open>add_special_tokens=False\<close>),
  \<open>decode\<close> the text of a list of token ids. Both belong to the transformers library and
  are parameters here.
\<close>

record tokenizer =
  encode :: "string \<Rightarrow> int list"
  decode :: "int list \<Rightarrow> string"

text \<open>
  With \<open>return_tensors="pt"\<close> the ids come back as a tensor with a leading batch
  dimension of size one, a list holding one row of ids. The drivers rely on it: they pass
  the tensor as \<open>input_ids\<close> and read the ids back with \<open>e_p.cpu()[0].tolist()\<close>.
\<close>

definition encode_pt :: "tokenizer \<Rightarrow> string \<Rightarrow> int list list" where
  "encode_pt tok text = [encode tok text]"

text \<open>
  The language model: its configured context size and its sampling routine
  \<open>model.generate(input_ids, max_length, temperature, top_k, top_p, repetition_penalty,
  do_sample=True)\<close>, which reads and advances the state \<open>'g\<close> of the random number
  generator and returns a batch of token sequences.
\<close>

record ('g, 'f) language_model =
  max_position_embeddings :: int
  generate :: "'g \<Rightarrow> int list list \<Rightarrow> int \<Rightarrow> 'f \<Rightarrow> int \<Rightarrow> 'f \<Rightarrow> 'f \<Rightarrow> int list list \<times> 'g"

definition model_generate ::
  "('g, 'f) language_model \<Rightarrow> 'f args \<Rightarrow> 'g \<Rightarrow> int list list \<Rightarrow> int list list \<times> 'g" where
  "model_generate model a g e_p =
     generate model g e_p (length' a) (temperature a) (top_k a) (top_p a) (repetition_penalty a)"

section \<open>Prompt preparation\<close>

definition NL :: char where
  "NL = CHR 0x0A"

definition PADDING_TEXT :: string where
  "PADDING_TEXT =
     '' In 1991, the remains of Russian Tsar Nicholas II and his family'' @ [NL] @
     ''(except for Alexei and Maria) are discovered.'' @ [NL] @
     ''The voice of Nicholas'' @ [CHR 0x27] @ ''s young son, Tsarevich Alexei Nikolaevich, narrates the'' @ [NL] @
     ''remainder of the story. 1883 Western Siberia,'' @ [NL] @
     ''a young Grigori Rasputin is asked by his father and a group of men to perform magic.'' @ [NL] @
     ''Rasputin has a vision and denounces one of the men as a horse thief. Although his'' @ [NL] @
     ''father initially slaps him for making such an accusation, Rasputin watches as the'' @ [NL] @
     ''man is chased outside and beaten. Twenty years later, Rasputin sees a vision of'' @ [NL] @
     ''the Virgin Mary, prompting him to become a priest. Rasputin quickly becomes famous,'' @ [NL] @
     ''with people, even a bishop, begging for his blessing. <eod> </s> <eos>''"

text \<open>
  \<^verbatim>\<open>
  def prepare_xlnet_input(args, _, tokenizer, prompt_text):
      prompt_text = (args.padding_text if args.padding_text else PADDING_TEXT) + prompt_text
      return prompt_text, {}
  \<close>
  \<open>prepare_transfoxl_input\<close> has the same body. The empty dictionary of the result is
  left out. \<open>--padding_text\<close> defaults to the empty string, which is false in Python.
\<close>

definition prepare_xlnet_input :: "'f args \<Rightarrow> string \<Rightarrow> string" where
  "prepare_xlnet_input a prompt_text =
     (if padding_text a \<noteq> [] then padding_text a else PADDING_TEXT) @ prompt_text"

definition prepare_transfoxl_input :: "'f args \<Rightarrow> string \<Rightarrow> string" where
  "prepare_transfoxl_input a prompt_text =
     (if padding_text a \<noteq> [] then padding_text a else PADDING_TEXT) @ prompt_text"

text \<open>
  The keys of the dictionary \<open>PREPROCESSING_FUNCTIONS\<close>. The script defines the dictionary
  and never reads it: neither driver nor \<open>main\<close> mentions it.
\<close>

definition PREPROCESSING_FUNCTIONS :: "string list" where
  "PREPROCESSING_FUNCTIONS = [''ctrl'', ''xlm'', ''xlnet'', ''transfo-xl'']"

section \<open>Post-processing of the decoded text\<close>

text \<open>
  The end index of the slice:
  \<^verbatim>\<open>text.find(args.stop_token) if args.stop_token else None\<close>.
  \<open>None\<close> and the empty string are false in Python.
\<close>

definition stop_index :: "string \<Rightarrow> string option \<Rightarrow> int option" where
  "stop_index text st =
     (case st of
        None \<Rightarrow> None
      | Some t \<Rightarrow> (if t \<noteq> [] then Some (py_find text t) else None))"

text \<open>
  The two replacements both drivers make:
  \<^verbatim>\<open>
  text = text.replace("<pad>", "")
  text = text.replace("\n", " ")
  \<close>
\<close>

definition strip_markers :: "string \<Rightarrow> string" where
  "strip_markers text = py_replace [NL] '' '' (py_replace ''<pad>'' [] text)"

text \<open>
  The interactive driver:
  \<^verbatim>\<open>
  text = text[: text.find(args.stop_token) if args.stop_token else None]
  text = text.replace("<pad>", "")
  text = text.replace("\n", " ")
  \<close>
\<close>

definition prompt_gen_truncate :: "string \<Rightarrow> string option \<Rightarrow> string" where
  "prompt_gen_truncate text st = py_slice text None (stop_index text st)"

definition prompt_gen_text :: "string \<Rightarrow> string option \<Rightarrow> string" where
  "prompt_gen_text text st = strip_markers (prompt_gen_truncate text st)"

text \<open>
  The batch driver, which removes the marker between the two replacements:
  \<^verbatim>\<open>
  text = text[text.find("<c-begin>"): text.find(args.stop_token) if args.stop_token else None]
  text = text.replace("<pad>", "")
  text = text.replace("<c-begin>", "")
  text = text.replace("\n", " ")
  \<close>
\<close>

definition file_gen_truncate :: "string \<Rightarrow> string option \<Rightarrow> string" where
  "file_gen_truncate text st =
     py_slice text (Some (py_find text ''<c-begin>'')) (stop_index text st)"

definition file_gen_strip :: "string \<Rightarrow> string" where
  "file_gen_strip text =
     py_replace [NL] '' '' (py_replace ''<c-begin>'' [] (py_replace ''<pad>'' [] text))"

definition file_gen_text :: "string \<Rightarrow> string option \<Rightarrow> string" where
  "file_gen_text text st = file_gen_strip (file_gen_truncate text st)"

section \<open>The batch driver\<close>

datatype error =
  KeyError | ValueError | IndexError | AttributeError | TypeError | LoadError | FileError |
  EOFError

text \<open>
  A cell of the table read by \<open>pd.read_csv(args.prompt_file, sep="\t")\<close>, as
  \<open>.values.tolist()\<close> hands it to the script: a \<open>str\<close>; an \<open>int\<close> or \<open>float\<close> when pandas
  reads the column as numbers; or the \<open>float\<close> NaN that pandas puts for an empty or NA
  cell. On a number and on NaN \<open>strip\<close> raises \<open>AttributeError\<close> and \<open>+\<close> with a \<open>str\<close> raises
  \<open>TypeError\<close>, whatever the number is.
\<close>

datatype cell = Text string | Number | Missing

text \<open>A row of the table: its \<open>title\<close> and \<open>content\<close> cells.\<close>

record table_row =
  title :: cell
  content :: cell

text \<open>
  The texts of a list of cells when every cell is text. A list comprehension that calls a
  \<open>str\<close> operation on each cell in turn raises at the first cell that is not text.
\<close>

fun text_cells :: "cell list \<Rightarrow> string list option" where
  "text_cells [] = Some []"
| "text_cells (Text t # cs) = (case text_cells cs of None \<Rightarrow> None | Some ts \<Rightarrow> Some (t # ts))"
| "text_cells (_ # cs) = None"

text \<open>\<^verbatim>\<open>ref_content = [" ".join(i.strip().split()[:400]) for i in ref_list]\<close>\<close>

definition ref_content_of :: "string \<Rightarrow> string" where
  "ref_content_of i = py_join '' '' (take 400 (py_split (py_strip i)))"

text \<open>
  \<^verbatim>\<open>
  encoded_prompt = [tokenizer.encode(prompt_text + " <c-begin> ".strip(),
      add_special_tokens=False, return_tensors="pt")[:100] for prompt_text in prompt_list]
  \<close>
  The method call binds tighter than \<open>+\<close>: the literal is stripped, then appended. The
  slice \<open>[:100]\<close> is applied to the tensor that \<open>encode\<close> returns, along its first
  dimension.
\<close>

definition encoded_prompt_of :: "tokenizer \<Rightarrow> string \<Rightarrow> int list list" where
  "encoded_prompt_of tok prompt_text =
     take 100 (encode_pt tok (prompt_text @ py_strip '' <c-begin> ''))"

text \<open>The fields of an output row, as they are passed to \<open>format\<close>; the fifth is the literal 1.\<close>

record batch_row =
  prompt :: string
  ref_fact :: string
  ref :: string
  gen :: string

definition TAB :: char where
  "TAB = CHR 0x09"

text \<open>\<^verbatim>\<open>fout.write("prompt\tref_fact\tref\tgen\tstyle_label\n")\<close>\<close>

definition HEADER :: string where
  "HEADER = ''prompt'' @ [TAB] @ ''ref_fact'' @ [TAB] @ ''ref'' @ [TAB] @ ''gen'' @ [TAB] @
     ''style_label'' @ [NL]"

text \<open>\<^verbatim>\<open>"{}\t{}\t{}\t{}\t{}\n".format(..., 1)\<close>\<close>

definition write_row :: "batch_row \<Rightarrow> string" where
  "write_row r = prompt r @ [TAB] @ ref_fact r @ [TAB] @ ref r @ [TAB] @ gen r @ [TAB] @
     ''1'' @ [NL]"

text \<open>
  The loop of \<open>file_gen\<close> over \<open>encoded_prompt\<close>, with \<open>fact_raw[i]\<close> and \<open>ref_content[i]\<close>
  beside each encoded prompt and the generator state threaded through the calls of
  \<open>model.generate\<close>. The result is the rows written and the exception that ended the loop,
  if any: \<open>output_sequences[0]\<close> and \<open>e_p.cpu()[0]\<close> raise \<open>IndexError\<close> on an empty
  batch.
\<close>

fun file_gen_rows ::
  "tokenizer \<Rightarrow> ('g, 'f) language_model \<Rightarrow> 'f args \<Rightarrow>
   (int list list \<times> string \<times> string) list \<Rightarrow> 'g \<Rightarrow> batch_row list \<times> error option" where
  "file_gen_rows tok model a [] g = ([], None)"
| "file_gen_rows tok model a ((e_p, fact_raw_i, ref_content_i) # rest) g =
     (case model_generate model a g e_p of
        (output_sequences, g') \<Rightarrow>
          (case output_sequences of
             [] \<Rightarrow> ([], Some IndexError)
           | generated_sequence # _ \<Rightarrow>
               (case e_p of
                  [] \<Rightarrow> ([], Some IndexError)
                | ids # _ \<Rightarrow>
                    (let text = file_gen_text (decode tok generated_sequence) (stop_token a);
                         prompt_text = decode tok ids;
                         row = \<lparr>prompt = py_strip prompt_text, ref_fact = py_strip fact_raw_i,
                                ref = py_strip ref_content_i, gen = py_strip text\<rparr>
                     in (case file_gen_rows tok model a rest g' of
                           (rows, err) \<Rightarrow> (row # rows, err))))))"

text \<open>
  \<open>file_gen\<close> before it opens the output file:
  \<^verbatim>\<open>
  prompt_list = data['title'].values.tolist()
  ref_list = data['content'].values.tolist()
  ref_content = [" ".join(i.strip().split()[:400]) for i in ref_list]
  fact_raw = prompt_list
  encoded_prompt = [tokenizer.encode(prompt_text + " <c-begin> ".strip(), ...)[:100]
                    for prompt_text in prompt_list]
  \<close>
  The comprehension over \<open>ref_list\<close> comes first and raises \<open>AttributeError\<close> when a
  \<open>content\<close> cell is not text; the one over \<open>prompt_list\<close> raises \<open>TypeError\<close> when a
  \<open>title\<close> cell is not text. The result is what the loop runs over: each encoded prompt
  with \<open>fact_raw[i]\<close> and \<open>ref_content[i]\<close>.
\<close>

definition file_gen_prepare ::
  "tokenizer \<Rightarrow> table_row list \<Rightarrow> error + (int list list \<times> string \<times> string) list" where
  "file_gen_prepare tok data =
     (let prompt_list = map title data;
          ref_list = map content data
      in (case text_cells ref_list of
            None \<Rightarrow> Inl AttributeError
          | Some ref_texts \<Rightarrow>
              (let ref_content = map ref_content_of ref_texts
               in (case text_cells prompt_list of
                     None \<Rightarrow> Inl TypeError
                   | Some fact_raw \<Rightarrow>
                       (let encoded_prompt = map (encoded_prompt_of tok) fact_raw
                        in Inr (zip encoded_prompt (zip fact_raw ref_content)))))))"

text \<open>
  \<open>file_gen\<close> from the table on, up to the end of the loop: the rows the loop produces,
  none when the preparation raises.
\<close>

definition file_gen_batch ::
  "tokenizer \<Rightarrow> ('g, 'f) language_model \<Rightarrow> 'f args \<Rightarrow> table_row list \<Rightarrow> 'g \<Rightarrow>
   batch_row list \<times> error option" where
  "file_gen_batch tok model a data g =
     (case file_gen_prepare tok data of
        Inl e \<Rightarrow> ([], Some e)
      | Inr xs \<Rightarrow> file_gen_rows tok model a xs g)"

text \<open>
  The strings \<open>file_gen\<close> writes to the output file, in order, and the exception that
  ended the run, if any: nothing when the preparation raises, since the file is opened
  after it; otherwise the header, then one string per row produced.
\<close>

definition file_gen ::
  "tokenizer \<Rightarrow> ('g, 'f) language_model \<Rightarrow> 'f args \<Rightarrow> table_row list \<Rightarrow> 'g \<Rightarrow>
   string list \<times> error option" where
  "file_gen tok model a data g =
     (case file_gen_prepare tok data of
        Inl e \<Rightarrow> ([], Some e)
      | Inr xs \<Rightarrow>
          (case file_gen_rows tok model a xs g of
             (rows, err) \<Rightarrow> (HEADER # map write_row rows, err)))"

section \<open>The interactive driver\<close>

datatype model_class =
  GPT2LMHeadModel | CTRLLMHeadModel | OpenAIGPTLMHeadModel | XLNetLMHeadModel |
  TransfoXLLMHeadModel | XLMWithLMHeadModel

datatype tokenizer_class =
  GPT2Tokenizer | CTRLTokenizer | OpenAIGPTTokenizer | XLNetTokenizer | TransfoXLTokenizer |
  XLMTokenizer

datatype event =
  Seeded int
| CodecLoad tokenizer_class string
| ModelLoad model_class string
| TableRead string
| FileOpen string
| FileWrite string
| FileClose
| ConsoleRead
| ConsolePrint string

text \<open>
  \<open>prompt_gen\<close>: \<open>while True\<close> over the lines that \<open>input\<close> returns. At the end of the
  input \<open>input\<close> raises \<open>EOFError\<close>, the only way out of the loop besides an
  \<open>IndexError\<close> at \<open>output_sequences[0]\<close>.
\<close>

fun prompt_gen ::
  "tokenizer \<Rightarrow> ('g, 'f) language_model \<Rightarrow> 'f args \<Rightarrow> string list \<Rightarrow> 'g \<Rightarrow>
   event list \<times> error option" where
  "prompt_gen tok model a [] g = ([ConsoleRead], Some EOFError)"
| "prompt_gen tok model a (text # rest) g =
     (let e_p = encode_pt tok text in
      (case model_generate model a g e_p of
         (output_sequences, g') \<Rightarrow>
           (case output_sequences of
              [] \<Rightarrow> ([ConsoleRead], Some IndexError)
            | generated_sequence # _ \<Rightarrow>
                (let text = prompt_gen_text (decode tok generated_sequence) (stop_token a)
                 in (case prompt_gen tok model a rest g' of
                       (evs, err) \<Rightarrow> (ConsoleRead # ConsolePrint text # evs, err))))))"

section \<open>Start-up\<close>

text \<open>The dictionary \<open>MODEL_CLASSES\<close>, as an association list in the order of the source.\<close>

definition MODEL_CLASSES :: "(string \<times> model_class \<times> tokenizer_class) list" where
  "MODEL_CLASSES =
     [(''gpt2'', GPT2LMHeadModel, GPT2Tokenizer),
      (''distilgpt2'', GPT2LMHeadModel, GPT2Tokenizer),
      (''ctrl'', CTRLLMHeadModel, CTRLTokenizer),
      (''openai-gpt'', OpenAIGPTLMHeadModel, OpenAIGPTTokenizer),
      (''xlnet'', XLNetLMHeadModel, XLNetTokenizer),
      (''transfo-xl'', TransfoXLLMHeadModel, TransfoXLTokenizer),
      (''xlm'', XLMWithLMHeadModel, XLMTokenizer)]"

text \<open>
  What the script reaches outside itself: the generator state that seeding with a given
  seed produces, the two \<open>from_pretrained\<close> loaders (\<open>None\<close> when loading raises), the
  rows of the table behind a path with their \<open>title\<close> and \<open>content\<close> cells (or the
  exception, when \<open>read_csv\<close> raises or the table lacks one of the two columns and its
  selection raises \<open>KeyError\<close>), whether a path can be opened for writing, and the lines
  waiting on the console.
\<close>

record ('g, 'f) world =
  manual_seed :: "int \<Rightarrow> 'g"
  tokenizer_from_pretrained :: "tokenizer_class \<Rightarrow> string \<Rightarrow> tokenizer option"
  model_from_pretrained :: "model_class \<Rightarrow> string \<Rightarrow> ('g, 'f) language_model option"
  read_csv :: "string \<Rightarrow> error + table_row list"
  can_open :: "string \<Rightarrow> bool"
  console :: "string list"

text \<open>
  \<^verbatim>\<open>
  def set_seed(args):
      np.random.seed(args.seed)
      torch.manual_seed(args.seed)
      if args.n_gpu > 0:
          torch.cuda.manual_seed_all(args.seed)
  \<close>
  \<open>np.random.seed\<close> raises \<open>ValueError\<close> for a seed outside \<open>0 .. 2**32 - 1\<close>.
\<close>

definition set_seed :: "('g, 'f) world \<Rightarrow> 'f args \<Rightarrow> error + 'g" where
  "set_seed w a =
     (if 0 \<le> seed a \<and> seed a < 2 ^ 32 then Inr (manual_seed w (seed a)) else Inl ValueError)"

text \<open>
  \<open>file_gen\<close> with its files: the table is read and its two columns are selected, the
  references and the prompts are prepared, the output file is opened, the header and the
  rows are written, and the file is closed when the loop ends without an exception.
\<close>

definition file_gen_io ::
  "('g, 'f) world \<Rightarrow> tokenizer \<Rightarrow> ('g, 'f) language_model \<Rightarrow> 'f args \<Rightarrow> 'g \<Rightarrow>
   event list \<times> error option" where
  "file_gen_io w tok model a g =
     (case read_csv w (prompt_file a) of
        Inl e \<Rightarrow> ([TableRead (prompt_file a)], Some e)
      | Inr data \<Rightarrow>
          (case file_gen_prepare tok data of
             Inl e \<Rightarrow> ([TableRead (prompt_file a)], Some e)
           | Inr xs \<Rightarrow>
               (if \<not> can_open w (output_file a)
                then ([TableRead (prompt_file a), FileOpen (output_file a)], Some FileError)
                else (case file_gen tok model a data g of
                        (written, err) \<Rightarrow>
                          ([TableRead (prompt_file a), FileOpen (output_file a)] @
                           map FileWrite written @ (if err = None then [FileClose] else []),
                           err)))))"

text \<open>
  \<open>main\<close> after argument parsing: seeding, the look-up of the lower-cased model type in
  \<open>MODEL_CLASSES\<close> (\<open>KeyError\<close> when it is no key), the two loads, the length
  adjustment, and the driver chosen by \<open>--no_file\<close>. The result is what happened, in
  order, and the exception that ended the run, if any.
\<close>

definition main :: "('g, 'f) world \<Rightarrow> 'f args \<Rightarrow> event list \<times> error option" where
  "main w a =
     (case set_seed w a of
        Inl e \<Rightarrow> ([], Some e)
      | Inr g \<Rightarrow>
          (let a = a\<lparr>model_type := py_lower (model_type a)\<rparr> in
           (case map_of MODEL_CLASSES (model_type a) of
              None \<Rightarrow> ([Seeded (seed a)], Some KeyError)
            | Some (model_class, tokenizer_class) \<Rightarrow>
                (case tokenizer_from_pretrained w tokenizer_class (model_name_or_path a) of
                   None \<Rightarrow>
                     ([Seeded (seed a), CodecLoad tokenizer_class (model_name_or_path a)],
                      Some LoadError)
                 | Some tok \<Rightarrow>
                     (case model_from_pretrained w model_class (model_name_or_path a) of
                        None \<Rightarrow>
                          ([Seeded (seed a), CodecLoad tokenizer_class (model_name_or_path a),
                            ModelLoad model_class (model_name_or_path a)], Some LoadError)
                      | Some model \<Rightarrow>
                          (let a = a\<lparr>length' := adjust_length_to_model (length' a)
                                     (max_position_embeddings model)\<rparr>
                           in (case (if no_file a then prompt_gen tok model a (console w) g
                                     else file_gen_io w tok model a g) of
                                 (evs, err) \<Rightarrow>
                                   ([Seeded (seed a),
                                     CodecLoad tokenizer_class (model_name_or_path a),
                                     ModelLoad model_class (model_name_or_path a)] @ evs,
                                    err))))))))"

text \<open>The events that load a model or a codec, or open a file.\<close>

fun is_load_or_open :: "event \<Rightarrow> bool" where
  "is_load_or_open (CodecLoad _ _) = True"
| "is_load_or_open (ModelLoad _ _) = True"
| "is_load_or_open (TableRead _) = True"
| "is_load_or_open (FileOpen _) = True"
| "is_load_or_open _ = False"

section \<open>A character-level codec and a model that echoes its prompt\<close>

text \<open>
  Concrete collaborators on which the definitions above can be run: a codec with one
  token per character, a model that returns its input batch unchanged, and a world that
  holds them.
\<close>

definition char_tokenizer :: tokenizer where
  "char_tokenizer = \<lparr>encode = map (\<lambda>c. int (of_char c)), decode = map (\<lambda>i. char_of (nat i))\<rparr>"

definition echo_model :: "(nat, unit) language_model" where
  "echo_model = \<lparr>max_position_embeddings = 1024,
     generate = (\<lambda>g input_ids max_length t k p r. (input_ids, Suc g))\<rparr>"

definition demo_args :: "unit args" where
  "demo_args = \<lparr>model_type = ''gpt2'', model_name_or_path = ''gpt2'', length' = 20,
     stop_token = None, temperature = (), repetition_penalty = (), top_k = 0, top_p = (),
     padding_text = [], seed = 42, no_file = False, prompt_file = ''in.tsv'',
     output_file = ''out.tsv''\<rparr>"

definition demo_world :: "(nat, unit) world" where
  "demo_world = \<lparr>manual_seed = nat,
     tokenizer_from_pretrained = (\<lambda>c path. Some char_tokenizer),
     model_from_pretrained = (\<lambda>c path. Some echo_model),
     read_csv = (\<lambda>path. Inr [\<lparr>title = Text ''The sky'',
       content = Text ''was blue and clear for miles.''\<rparr>]),
     can_open = (\<lambda>path. True),
     console = [''Hello world'']\<rparr>"

section \<open>Tables of text\<close>

text \<open>
  Used in statements only: whether a cell is text, the text of a cell (empty for a cell
  that is not text), and whether every cell of a table is text.
\<close>

fun is_text :: "cell \<Rightarrow> bool" where
  "is_text (Text t) = True"
| "is_text _ = False"

fun the_text :: "cell \<Rightarrow> string" where
  "the_text (Text t) = t"
| "the_text _ = []"

definition text_table :: "table_row list \<Rightarrow> bool" where
  "text_table data = list_all (\<lambda>d. is_text (title d) \<and> is_text (content d)) data"

section \<open>Facts about the string operations\<close>

lemma py_find_range: "py_find s sub = - 1 \<or> 0 \<le> py_find s sub"
  by (induction s) (auto simp: Let_def)

lemma py_find_absent_replace:
  "py_find s (a # as) = - 1 \<Longrightarrow> py_replace (a # as) new s = s"
proof (induction s)
  case Nil
  then show ?case by simp
next
  case (Cons c cs)
  from Cons.prems have np: "\<not> prefix (a # as) (c # cs)"
    by (auto split: if_splits)
  from Cons.prems np have "py_find cs (a # as) = - 1"
    using py_find_range [of cs "a # as"] by (auto simp: Let_def split: if_splits)
  with Cons.IH np show ?case by (simp del: Cons_prefix_Cons)
qed

lemma py_replace_length_le:
  "length (py_replace (a # as) [] s) \<le> length s"
proof (induction s rule: length_induct)
  case (1 s)
  show ?case
  proof (cases s)
    case Nil
    then show ?thesis by simp
  next
    case (Cons c cs)
    show ?thesis
    proof (cases "prefix (a # as) (c # cs)")
      case True
      have "length (drop (length as) cs) < length s"
        using Cons by simp
      with 1 have "length (py_replace (a # as) [] (drop (length as) cs)) \<le> length (drop (length as) cs)"
        by blast
      with True Cons show ?thesis by (simp del: Cons_prefix_Cons)
    next
      case False
      have "length cs < length s"
        using Cons by simp
      with 1 have "length (py_replace (a # as) [] cs) \<le> length cs"
        by blast
      with False Cons show ?thesis by (simp del: Cons_prefix_Cons)
    qed
  qed
qed

lemma py_replace_length_less:
  "py_find s (a # as) \<noteq> - 1 \<Longrightarrow> length (py_replace (a # as) [] s) < length s"
proof (induction s)
  case Nil
  then show ?case by simp
next
  case (Cons c cs)
  show ?case
  proof (cases "prefix (a # as) (c # cs)")
    case True
    have "length (py_replace (a # as) [] (drop (length as) cs)) \<le> length (drop (length as) cs)"
      by (rule py_replace_length_le)
    with True show ?thesis by (simp del: Cons_prefix_Cons)
  next
    case False
    with Cons.prems have "py_find cs (a # as) \<noteq> - 1"
      by (auto simp: Let_def simp del: Cons_prefix_Cons split: if_splits)
    with Cons.IH False show ?thesis by (simp del: Cons_prefix_Cons)
  qed
qed

lemma newline_replaced: "NL \<notin> set (py_replace [NL] '' '' s)"
  by (induction s) (auto simp: NL_def)

lemma newline_replace_length: "length (py_replace [NL] '' '' s) = length s"
  by (induction s) auto

lemma newline_absent_replace: "NL \<notin> set s \<Longrightarrow> py_replace [NL] '' '' s = s"
  by (induction s) auto

lemma py_slice_end_minus_one:
  "py_slice s start (Some (- 1)) = butlast (py_slice s start None)"
proof -
  define n where "n = int (length s)"
  define lo where "lo = (case start of None \<Rightarrow> 0 | Some i \<Rightarrow> slice_index n i)"
  have lo: "0 \<le> lo" "lo \<le> n"
    by (auto simp: lo_def n_def slice_index_def split: option.splits)
  have a: "py_slice s start (Some (- 1)) = take (nat (slice_index n (- 1) - lo)) (drop (nat lo) s)"
    by (cases start) (simp_all add: py_slice_def n_def lo_def Let_def)
  have b: "py_slice s start None = drop (nat lo) s"
    by (cases start) (simp_all add: py_slice_def n_def lo_def Let_def)
  have "nat (slice_index n (- 1) - lo) = length (drop (nat lo) s) - 1"
    using lo by (auto simp: slice_index_def n_def)
  with a b show ?thesis by (simp add: butlast_conv_take)
qed


section \<open>Facts about the loop of the batch driver\<close>

lemma encoded_prompt_of_eq:
  "encoded_prompt_of tok prompt_text = [encode tok (prompt_text @ ''<c-begin>'')]"
  by (simp add: encoded_prompt_of_def encode_pt_def py_strip_def is_space_def)

lemma text_cells_all: "list_all is_text cs \<Longrightarrow> text_cells cs = Some (map the_text cs)"
proof (induction cs)
  case Nil
  then show ?case by simp
next
  case (Cons c cs)
  then show ?case by (cases c) simp_all
qed

lemma text_cells_none: "\<not> list_all is_text cs \<Longrightarrow> text_cells cs = None"
proof (induction cs)
  case Nil
  then show ?case by simp
next
  case (Cons c cs)
  then show ?case by (cases c) (auto split: option.splits)
qed

lemma text_table_columns:
  "text_table data \<longleftrightarrow>
   list_all is_text (map content data) \<and> list_all is_text (map title data)"
  by (induction data) (auto simp: text_table_def)

lemma zip_columns:
  "zip (map (encoded_prompt_of tok) (map the_text (map title data)))
       (zip (map the_text (map title data))
            (map ref_content_of (map the_text (map content data)))) =
   map (\<lambda>d. (encoded_prompt_of tok (the_text (title d)), the_text (title d),
              ref_content_of (the_text (content d)))) data"
  by (induction data) simp_all

lemma file_gen_prepare_text:
  assumes "text_table data"
  shows "file_gen_prepare tok data =
     Inr (map (\<lambda>d. (encoded_prompt_of tok (the_text (title d)), the_text (title d),
                     ref_content_of (the_text (content d)))) data)"
proof -
  from assms have "text_cells (map content data) = Some (map the_text (map content data))"
    and "text_cells (map title data) = Some (map the_text (map title data))"
    by (simp_all only: text_table_columns text_cells_all)
  then show ?thesis
    by (simp only: file_gen_prepare_def Let_def option.case zip_columns)
qed

lemma file_gen_prepare_error:
  assumes "\<not> text_table data"
  shows "file_gen_prepare tok data = Inl AttributeError \<or>
         file_gen_prepare tok data = Inl TypeError"
proof (cases "list_all is_text (map content data)")
  case True
  with assms have "\<not> list_all is_text (map title data)"
    by (simp add: text_table_columns)
  then have "text_cells (map title data) = None"
    by (rule text_cells_none)
  then show ?thesis
    by (simp add: file_gen_prepare_def Let_def split: option.splits)
next
  case False
  then have "text_cells (map content data) = None"
    by (rule text_cells_none)
  then show ?thesis
    by (simp add: file_gen_prepare_def Let_def)
qed

lemma file_gen_rows_prompt:
  "map prompt (fst (file_gen_rows tok model a xs g)) =
   take (length (fst (file_gen_rows tok model a xs g)))
     (map (\<lambda>x. py_strip (decode tok (hd (fst x)))) xs)"
proof (induction xs arbitrary: g)
  case Nil
  then show ?case by simp
next
  case (Cons x xs)
  obtain e_p f r where x: "x = (e_p, f, r)" by (cases x)
  obtain outs g' where gen: "model_generate model a g e_p = (outs, g')"
    by (cases "model_generate model a g e_p")
  show ?case
  proof (cases outs)
    case Nil
    with x gen show ?thesis by simp
  next
    case outs: (Cons s ss)
    show ?thesis
    proof (cases e_p)
      case Nil
      with x gen outs show ?thesis by simp
    next
      case e_p: (Cons ids rest)
      obtain rows err where rec: "file_gen_rows tok model a xs g' = (rows, err)"
        by (cases "file_gen_rows tok model a xs g'")
      from Cons.IH [of g'] rec
      have "map prompt rows = take (length rows) (map (\<lambda>x. py_strip (decode tok (hd (fst x)))) xs)"
        by simp
      with x gen outs e_p rec show ?thesis by (simp add: Let_def)
    qed
  qed
qed

lemma file_gen_rows_complete:
  assumes contract: "\<forall>g e_p. length (fst (model_generate model a g e_p)) = length e_p"
    and nonempty: "\<forall>x \<in> set xs. fst x \<noteq> []"
  shows "snd (file_gen_rows tok model a xs g) = None \<and>
         length (fst (file_gen_rows tok model a xs g)) = length xs \<and>
         map ref_fact (fst (file_gen_rows tok model a xs g)) = map (\<lambda>x. py_strip (fst (snd x))) xs \<and>
         map ref (fst (file_gen_rows tok model a xs g)) = map (\<lambda>x. py_strip (snd (snd x))) xs"
  using nonempty
proof (induction xs arbitrary: g)
  case Nil
  then show ?case by simp
next
  case (Cons x xs)
  obtain e_p f r where x: "x = (e_p, f, r)" by (cases x)
  obtain outs g' where gen: "model_generate model a g e_p = (outs, g')"
    by (cases "model_generate model a g e_p")
  from Cons.prems x obtain ids rest where e_p: "e_p = ids # rest"
    by (cases e_p) auto
  from contract [rule_format, of g e_p] gen e_p obtain s ss where outs: "outs = s # ss"
    by (cases outs) auto
  obtain rows err where rec: "file_gen_rows tok model a xs g' = (rows, err)"
    by (cases "file_gen_rows tok model a xs g'")
  from Cons.prems have "\<forall>x \<in> set xs. fst x \<noteq> []" by simp
  from Cons.IH [OF this, of g'] rec
  have "err = None \<and> length rows = length xs \<and>
        map ref_fact rows = map (\<lambda>x. py_strip (fst (snd x))) xs \<and>
        map ref rows = map (\<lambda>x. py_strip (snd (snd x))) xs"
    by simp
  with x gen outs e_p rec show ?case by (simp add: Let_def)
qed

lemma py_strip_marker:
  "py_strip (x @ ''<c-begin>'') = dropWhile is_space x @ ''<c-begin>''"
proof -
  have l: "dropWhile is_space (x @ ''<c-begin>'') = dropWhile is_space x @ ''<c-begin>''"
    by (induction x) (simp_all add: is_space_def)
  have "dropWhile is_space (rev (dropWhile is_space x @ ''<c-begin>'')) =
        rev (dropWhile is_space x @ ''<c-begin>'')"
    by (simp add: is_space_def)
  with l show ?thesis by (simp add: py_strip_def)
qed

lemma file_gen_batch_rows:
  "text_table data \<Longrightarrow>
   file_gen_batch tok model a data g =
   file_gen_rows tok model a
     (map (\<lambda>d. (encoded_prompt_of tok (the_text (title d)), the_text (title d),
                 ref_content_of (the_text (content d)))) data) g"
  by (simp add: file_gen_batch_def file_gen_prepare_text)

lemma file_gen_batch_error:
  "\<not> text_table data \<Longrightarrow> fst (file_gen_batch tok model a data g) = []"
  using file_gen_prepare_error [of data tok] by (auto simp: file_gen_batch_def)

section \<open>Facts about the concrete collaborators\<close>

lemma char_tokenizer_roundtrip:
  "decode char_tokenizer (encode char_tokenizer s) = s"
  by (simp add: char_tokenizer_def o_def)

lemma char_tokenizer_length:
  "length (encode char_tokenizer s) = length s"
  by (simp add: char_tokenizer_def)

text \<open>
  The model type is compared after lower-casing: \<open>GPT2\<close> is no key of
  \<open>MODEL_CLASSES\<close>, and the run loads the GPT-2 classes and goes on to the batch driver.
\<close>

lemma main_model_type_lower_cased:
  "''GPT2'' \<notin> fst ` set MODEL_CLASSES \<and>
   snd (main demo_world (demo_args\<lparr>model_type := ''GPT2''\<rparr>)) = None \<and>
   filter is_load_or_open (fst (main demo_world (demo_args\<lparr>model_type := ''GPT2''\<rparr>))) =
     [CodecLoad GPT2Tokenizer ''gpt2'', ModelLoad GPT2LMHeadModel ''gpt2'',
      TableRead ''in.tsv'', FileOpen ''out.tsv'']"
  by code_simp

section \<open>Length resolver: case analysis\<close>

text \<open>
  C1. The length resolver returns the model capacity when the request is negative and the
  capacity positive; otherwise the capacity when it is positive and strictly below the
  request; otherwise the safety bound 10000 when the request is negative (the capacity is
  then not positive); otherwise the request unchanged. The cases are tried in this order,
  for all integers.
\<close>

theorem adjust_length_to_model_cases:
  "adjust_length_to_model requested capacity =
     (if requested < 0 \<and> capacity > 0 then capacity
      else if 0 < capacity \<and> capacity < requested then capacity
      else if requested < 0 \<and> capacity \<le> 0 then 10000
      else requested)"
  by (simp add: adjust_length_to_model_def MAX_LENGTH_def)

text \<open>
  C4. The resolved length, for every request and capacity: it is positive whenever the
  request is not 0 (a request of 0 is returned as 0); it is at most the capacity whenever
  the capacity is positive; with no positive capacity a negative request resolves to
  10000 and a request that is not negative is returned unchanged, so the result is at
  most 10000 there whenever the request is at most 10000.
\<close>

theorem adjust_length_to_model_bounds:
  "(requested \<noteq> 0 \<longrightarrow> 0 < adjust_length_to_model requested capacity) \<and>
   (0 < capacity \<longrightarrow> adjust_length_to_model requested capacity \<le> capacity) \<and>
   (capacity \<le> 0 \<and> requested < 0 \<longrightarrow> adjust_length_to_model requested capacity = 10000) \<and>
   (capacity \<le> 0 \<and> 0 \<le> requested \<longrightarrow> adjust_length_to_model requested capacity = requested) \<and>
   (capacity \<le> 0 \<and> requested \<le> 10000 \<longrightarrow> adjust_length_to_model requested capacity \<le> 10000) \<and>
   adjust_length_to_model 0 capacity = 0"
  by (auto simp: adjust_length_to_model_def MAX_LENGTH_def)

theorem adjust_length_to_model_bounds_witness:
  "0 < adjust_length_to_model (- 1) 1024 \<and> adjust_length_to_model (- 1) 1024 \<le> 1024 \<and>
   adjust_length_to_model (- 1) 0 = 10000 \<and>
   adjust_length_to_model 20 0 \<le> 10000 \<and> adjust_length_to_model 20 0 = 20"
  using adjust_length_to_model_bounds [of "- 1" 1024] adjust_length_to_model_bounds [of "- 1" 0]
    adjust_length_to_model_bounds [of 20 0]
  by simp

text \<open>
  The resolved length is not positive for the request 0, and with no positive capacity a
  request of 20000 is returned as it is, above 10000.
\<close>

theorem adjust_length_to_model_counterexample:
  "\<not> 0 < adjust_length_to_model 0 1024 \<and> \<not> adjust_length_to_model 20000 0 \<le> 10000"
  by (simp add: adjust_length_to_model_def MAX_LENGTH_def)

section \<open>The encoded prompt of the batch driver\<close>

text \<open>
  C2. The encoded prompt that the batch driver hands to the generation routine. The slice
  \<open>[:100]\<close> acts on the batch dimension, which has one row, so the row of token ids is
  kept whole: a title of 101 characters under the character-level codec reaches the model
  as a row of 110 token ids (the title and the nine characters of the marker).
\<close>

theorem encoded_prompt_keeps_all_tokens:
  "encoded_prompt_of tok prompt_text = [encode tok (prompt_text @ ''<c-begin>'')] \<and>
   map length (encoded_prompt_of char_tokenizer (replicate 101 (CHR ''a''))) = [110]"
  by (simp add: encoded_prompt_of_eq char_tokenizer_length)

text \<open>
  C3. The scenario of the padding-dependent family: model type \<open>xlnet\<close>, prompt
  \<open>Hello world\<close>, no padding text given. \<open>prepare_xlnet_input\<close> would put the default
  padding passage before the prompt, and neither driver calls it: the batch driver sends
  the encoding of the prompt and the marker, the interactive driver the encoding of the
  prompt, and neither is the encoding of the padding passage followed by the prompt.
\<close>

theorem padding_text_not_prepended:
  "padding_text (demo_args\<lparr>model_type := ''xlnet''\<rparr>) = [] \<and>
   prepare_xlnet_input (demo_args\<lparr>model_type := ''xlnet''\<rparr>) ''Hello world'' =
     PADDING_TEXT @ ''Hello world'' \<and>
   encoded_prompt_of char_tokenizer ''Hello world'' =
     [encode char_tokenizer ''Hello world<c-begin>''] \<and>
   encoded_prompt_of char_tokenizer ''Hello world'' \<noteq>
     [encode char_tokenizer (PADDING_TEXT @ ''Hello world'')] \<and>
   map prompt (fst (file_gen_batch char_tokenizer echo_model (demo_args\<lparr>model_type := ''xlnet''\<rparr>)
     [\<lparr>title = Text ''Hello world'', content = Text ''was blue''\<rparr>] 0)) =
     [''Hello world<c-begin>''] \<and>
   encode_pt char_tokenizer ''Hello world'' \<noteq> [encode char_tokenizer (PADDING_TEXT @ ''Hello world'')]"
proof -
  have a: "encode char_tokenizer ''Hello world<c-begin>'' \<noteq>
      encode char_tokenizer (PADDING_TEXT @ ''Hello world'')"
    by (simp add: char_tokenizer_def PADDING_TEXT_def)
  have b: "encode char_tokenizer ''Hello world'' \<noteq>
      encode char_tokenizer (PADDING_TEXT @ ''Hello world'')"
    by (simp add: char_tokenizer_def PADDING_TEXT_def)
  have c: "map prompt (fst (file_gen_batch char_tokenizer echo_model (demo_args\<lparr>model_type := ''xlnet''\<rparr>)
     [\<lparr>title = Text ''Hello world'', content = Text ''was blue''\<rparr>] 0)) =
     [''Hello world<c-begin>'']"
    by (simp add: file_gen_batch_def file_gen_prepare_def encoded_prompt_of_eq echo_model_def
        model_generate_def char_tokenizer_roundtrip py_strip_def is_space_def Let_def)
  from a b c show ?thesis
    by (simp add: encoded_prompt_of_eq encode_pt_def demo_args_def prepare_xlnet_input_def)
qed

section \<open>The rows of the batch driver\<close>

text \<open>
  C5. The \<open>prompt\<close> field of the rows the batch driver produces: for each row, in input
  order, it is the decoded encoded prompt with surrounding whitespace stripped. The marker
  was appended before encoding and is not removed from this field (the removal is applied
  to the generated text only), so with a codec that decodes what it encoded the field is
  the title without its leading whitespace, followed by the marker.
\<close>

theorem file_gen_prompt_field:
  "map prompt (fst (file_gen_batch tok model a data g)) =
     take (length (fst (file_gen_batch tok model a data g)))
       (map (\<lambda>d. py_strip (decode tok (encode tok (the_text (title d) @ ''<c-begin>'')))) data) \<and>
   ((\<forall>s. decode tok (encode tok s) = s) \<longrightarrow>
     map prompt (fst (file_gen_batch tok model a data g)) =
       take (length (fst (file_gen_batch tok model a data g)))
         (map (\<lambda>d. dropWhile is_space (the_text (title d)) @ ''<c-begin>'') data))"
proof (cases "text_table data")
  case True
  have "map prompt (fst (file_gen_batch tok model a data g)) =
     take (length (fst (file_gen_batch tok model a data g)))
       (map (\<lambda>d. py_strip (decode tok (encode tok (the_text (title d) @ ''<c-begin>'')))) data)"
    using file_gen_rows_prompt [of tok model a
        "map (\<lambda>d. (encoded_prompt_of tok (the_text (title d)), the_text (title d),
                    ref_content_of (the_text (content d)))) data" g]
    by (simp add: file_gen_batch_rows [OF True] encoded_prompt_of_eq o_def)
  then show ?thesis by (simp add: py_strip_marker)
next
  case False
  then show ?thesis by (simp add: file_gen_batch_error)
qed

theorem file_gen_prompt_field_witness:
  "decode char_tokenizer (encode char_tokenizer '' The sky<c-begin>'') = '' The sky<c-begin>'' \<and>
   map prompt (fst (file_gen_batch char_tokenizer echo_model demo_args
     [\<lparr>title = Text '' The sky'', content = Text ''was blue''\<rparr>] 0)) = [''The sky<c-begin>'']"
proof -
  have rt: "\<forall>s. decode char_tokenizer (encode char_tokenizer s) = s"
    by (simp add: char_tokenizer_roundtrip)
  have n: "length (fst (file_gen_batch char_tokenizer echo_model demo_args
     [\<lparr>title = Text '' The sky'', content = Text ''was blue''\<rparr>] 0)) = 1"
    by (simp add: encoded_prompt_of_eq file_gen_batch_def file_gen_prepare_def echo_model_def
        model_generate_def Let_def)
  from rt file_gen_prompt_field [of char_tokenizer echo_model demo_args
     "[\<lparr>title = Text '' The sky'', content = Text ''was blue''\<rparr>]" 0] n
  show ?thesis by (simp add: is_space_def py_strip_def)
qed

text \<open>
  With the character-level codec the row for the title \<open>The sky\<close> has the \<open>prompt\<close> field
  \<open>The sky<c-begin>\<close>, in which the marker occurs at index 7.
\<close>

theorem prompt_field_counterexample:
  "map prompt (fst (file_gen_batch char_tokenizer echo_model demo_args
     [\<lparr>title = Text ''The sky'', content = Text ''was blue and clear for miles.''\<rparr>] 0)) =
     [''The sky<c-begin>''] \<and>
   py_find ''The sky<c-begin>'' ''<c-begin>'' = 7"
  by (simp add: file_gen_batch_def file_gen_prepare_def encoded_prompt_of_eq echo_model_def
      model_generate_def char_tokenizer_roundtrip py_strip_def is_space_def Let_def)

text \<open>
  C6. Provided the generation routine returns one sequence for each row of its input
  batch: for a table whose \<open>title\<close> and \<open>content\<close> cells are all text, the batch driver
  ends without an exception and writes the header line
  \<open>prompt\tref_fact\tref\tgen\tstyle_label\<close> followed by exactly one row string per row
  of the table, in the order of the table (the k-th row written carries the stripped
  title and the reference text of the k-th table row); for a table with a cell that is
  not text it raises \<open>AttributeError\<close> or \<open>TypeError\<close> and writes nothing, not even the
  header.
\<close>

theorem file_gen_one_row_per_input:
  assumes "\<forall>g e_p. length (fst (model_generate model a g e_p)) = length e_p"
  shows "(text_table data \<longrightarrow>
           snd (file_gen tok model a data g) = None \<and>
           fst (file_gen tok model a data g) =
             (''prompt'' @ [CHR 0x09] @ ''ref_fact'' @ [CHR 0x09] @ ''ref'' @ [CHR 0x09] @
              ''gen'' @ [CHR 0x09] @ ''style_label'' @ [CHR 0x0A]) #
             map (\<lambda>r. prompt r @ [CHR 0x09] @ ref_fact r @ [CHR 0x09] @ ref r @ [CHR 0x09] @
                       gen r @ [CHR 0x09] @ ''1'' @ [CHR 0x0A])
               (fst (file_gen_batch tok model a data g)) \<and>
           length (fst (file_gen tok model a data g)) = Suc (length data) \<and>
           length (fst (file_gen_batch tok model a data g)) = length data \<and>
           map ref_fact (fst (file_gen_batch tok model a data g)) =
             map (\<lambda>d. py_strip (the_text (title d))) data \<and>
           map ref (fst (file_gen_batch tok model a data g)) =
             map (\<lambda>d. py_strip (ref_content_of (the_text (content d)))) data \<and>
           map prompt (fst (file_gen_batch tok model a data g)) =
             map (\<lambda>d. py_strip (decode tok (encode tok (the_text (title d) @ ''<c-begin>''))))
               data) \<and>
         (\<not> text_table data \<longrightarrow>
           fst (file_gen tok model a data g) = [] \<and>
           (snd (file_gen tok model a data g) = Some AttributeError \<or>
            snd (file_gen tok model a data g) = Some TypeError))"
proof (cases "text_table data")
  case True
  let ?xs = "map (\<lambda>d. (encoded_prompt_of tok (the_text (title d)), the_text (title d),
                        ref_content_of (the_text (content d)))) data"
  have ne: "\<forall>x \<in> set ?xs. fst x \<noteq> []"
    by (simp add: encoded_prompt_of_eq)
  from file_gen_rows_complete [OF assms ne, of tok g]
  have c: "snd (file_gen_batch tok model a data g) = None"
    "length (fst (file_gen_batch tok model a data g)) = length data"
    "map ref_fact (fst (file_gen_batch tok model a data g)) =
       map (\<lambda>d. py_strip (the_text (title d))) data"
    "map ref (fst (file_gen_batch tok model a data g)) =
       map (\<lambda>d. py_strip (ref_content_of (the_text (content d)))) data"
    by (simp_all add: file_gen_batch_rows [OF True] o_def)
  from file_gen_rows_prompt [of tok model a ?xs g] c(2)
  have p: "map prompt (fst (file_gen_batch tok model a data g)) =
           map (\<lambda>d. py_strip (decode tok (encode tok (the_text (title d) @ ''<c-begin>'')))) data"
    by (simp add: file_gen_batch_rows [OF True] encoded_prompt_of_eq o_def)
  have w: "file_gen tok model a data g =
      (HEADER # map write_row (fst (file_gen_batch tok model a data g)),
       snd (file_gen_batch tok model a data g))"
    by (simp add: file_gen_def file_gen_batch_def file_gen_prepare_text [OF True] split_beta)
  have h: "HEADER = ''prompt'' @ [CHR 0x09] @ ''ref_fact'' @ [CHR 0x09] @ ''ref'' @ [CHR 0x09] @
              ''gen'' @ [CHR 0x09] @ ''style_label'' @ [CHR 0x0A]"
    by (simp add: HEADER_def TAB_def NL_def)
  have r: "write_row = (\<lambda>r. prompt r @ [CHR 0x09] @ ref_fact r @ [CHR 0x09] @ ref r @ [CHR 0x09] @
                       gen r @ [CHR 0x09] @ ''1'' @ [CHR 0x0A])"
    by (rule ext) (simp add: write_row_def TAB_def NL_def)
  from True c p show ?thesis
    unfolding w h r by simp
next
  case False
  from file_gen_prepare_error [OF False, of tok] False show ?thesis
    by (auto simp: file_gen_def)
qed

theorem file_gen_one_row_per_input_witness:
  "length (fst (model_generate echo_model demo_args (5 :: nat) [[1, 2]])) = length [[1, 2 :: int]] \<and>
   text_table [\<lparr>title = Text ''The sky'', content = Text ''was blue and clear for miles.''\<rparr>,
      \<lparr>title = Text ''A'', content = Text '' b  c ''\<rparr>] \<and>
   file_gen char_tokenizer echo_model demo_args
     [\<lparr>title = Text ''The sky'', content = Text ''was blue and clear for miles.''\<rparr>,
      \<lparr>title = Text ''A'', content = Text '' b  c ''\<rparr>] 0 =
   ([''prompt'' @ [CHR 0x09] @ ''ref_fact'' @ [CHR 0x09] @ ''ref'' @ [CHR 0x09] @ ''gen'' @
       [CHR 0x09] @ ''style_label'' @ [CHR 0x0A],
     ''The sky<c-begin>'' @ [CHR 0x09] @ ''The sky'' @ [CHR 0x09] @
       ''was blue and clear for miles.'' @ [CHR 0x09] @ [] @ [CHR 0x09] @ ''1'' @ [CHR 0x0A],
     ''A<c-begin>'' @ [CHR 0x09] @ ''A'' @ [CHR 0x09] @ ''b c'' @ [CHR 0x09] @ [] @ [CHR 0x09] @
       ''1'' @ [CHR 0x0A]], None) \<and>
   \<not> text_table [\<lparr>title = Number, content = Text ''was blue''\<rparr>] \<and>
   file_gen char_tokenizer echo_model demo_args
     [\<lparr>title = Number, content = Text ''was blue''\<rparr>] 0 = ([], Some TypeError)"
proof -
  have contract: "\<forall>g e_p. length (fst (model_generate echo_model demo_args g e_p)) = length e_p"
    by (simp add: model_generate_def echo_model_def)
  have t: "text_table [\<lparr>title = Text ''The sky'', content = Text ''was blue and clear for miles.''\<rparr>,
      \<lparr>title = Text ''A'', content = Text '' b  c ''\<rparr>]"
    by (simp add: text_table_def)
  have n: "\<not> text_table [\<lparr>title = Number, content = Text ''was blue''\<rparr>]"
    by (simp add: text_table_def)
  have rows: "fst (file_gen_batch char_tokenizer echo_model demo_args
     [\<lparr>title = Text ''The sky'', content = Text ''was blue and clear for miles.''\<rparr>,
      \<lparr>title = Text ''A'', content = Text '' b  c ''\<rparr>] 0) =
     [\<lparr>prompt = ''The sky<c-begin>'', ref_fact = ''The sky'',
       ref = ''was blue and clear for miles.'', gen = []\<rparr>,
      \<lparr>prompt = ''A<c-begin>'', ref_fact = ''A'', ref = ''b c'', gen = []\<rparr>]"
    by (simp add: file_gen_batch_def file_gen_prepare_def encoded_prompt_of_eq echo_model_def
        model_generate_def char_tokenizer_roundtrip py_strip_def is_space_def Let_def
        demo_args_def file_gen_text_def file_gen_strip_def file_gen_truncate_def stop_index_def
        py_slice_def slice_index_def ref_content_of_def py_split_def NL_def)
  have e: "snd (file_gen char_tokenizer echo_model demo_args
     [\<lparr>title = Number, content = Text ''was blue''\<rparr>] 0) = Some TypeError"
    by (simp add: file_gen_def file_gen_prepare_def Let_def)
  from file_gen_one_row_per_input [OF contract, of
     "[\<lparr>title = Text ''The sky'', content = Text ''was blue and clear for miles.''\<rparr>,
      \<lparr>title = Text ''A'', content = Text '' b  c ''\<rparr>]" char_tokenizer 0]
    file_gen_one_row_per_input [OF contract, of
     "[\<lparr>title = Number, content = Text ''was blue''\<rparr>]" char_tokenizer 0]
    t n rows e
  show ?thesis
    by (simp add: model_generate_def echo_model_def prod_eq_iff)
qed

text \<open>
  A table with both columns and one row whose \<open>content\<close> cell is empty: the driver raises
  at the first comprehension and writes neither the header nor a row. So does a table
  whose \<open>title\<close> column pandas reads as numbers, at the second comprehension.
\<close>

theorem file_gen_cell_counterexample:
  "file_gen char_tokenizer echo_model demo_args
     [\<lparr>title = Text ''The sky'', content = Missing\<rparr>] 0 = ([], Some AttributeError) \<and>
   file_gen char_tokenizer echo_model demo_args
     [\<lparr>title = Number, content = Text ''was blue and clear for miles.''\<rparr>] 0 =
     ([], Some TypeError)"
  by (simp add: file_gen_def file_gen_prepare_def Let_def)

section \<open>Start-up with an unsupported model type\<close>

text \<open>
  C7. A model type is supported when its lower-case form is a key of \<open>MODEL_CLASSES\<close>
  (the script lower-cases it before the look-up). For every model type that is not
  supported, \<open>main\<close> ends with an exception before any codec or model load and before
  any file is read or opened: with \<open>KeyError\<close> right after seeding, or with the
  \<open>ValueError\<close> of the seeding itself when the seed is out of range.
\<close>

theorem main_unsupported_model_type:
  assumes "py_lower (model_type a) \<notin> fst ` set MODEL_CLASSES"
  shows "main w a =
           (if 0 \<le> seed a \<and> seed a < 2 ^ 32 then ([Seeded (seed a)], Some KeyError)
            else ([], Some ValueError)) \<and>
         filter is_load_or_open (fst (main w a)) = []"
proof -
  from assms have "map_of MODEL_CLASSES (py_lower (model_type a)) = None"
    by (simp add: map_of_eq_None_iff)
  then show ?thesis
    by (simp add: main_def set_seed_def Let_def)
qed

theorem main_unsupported_model_type_witness:
  "py_lower ''bert'' \<notin> fst ` set MODEL_CLASSES \<and>
   main demo_world (demo_args\<lparr>model_type := ''bert''\<rparr>) = ([Seeded 42], Some KeyError)"
proof -
  have h: "py_lower (model_type (demo_args\<lparr>model_type := ''bert''\<rparr>)) \<notin> fst ` set MODEL_CLASSES"
    by (simp add: py_lower_def lower_char_def MODEL_CLASSES_def)
  from h main_unsupported_model_type [OF h, of demo_world]
  show ?thesis by (simp add: demo_args_def)
qed

section \<open>Post-processing\<close>

text \<open>
  C8. Removing padding markers and replacing line feeds is the identity on a text with no
  padding marker and no line feed, and applying it to its own output changes nothing
  exactly when that output holds no padding marker. For the batch driver, which also
  removes the continuation-begin marker between the two replacements, a second pass
  changes nothing exactly when the output of the first holds neither marker.
\<close>

theorem strip_markers_idempotent_iff:
  "(strip_markers (strip_markers s) = strip_markers s \<longleftrightarrow>
      py_find (strip_markers s) ''<pad>'' = - 1) \<and>
   (file_gen_strip (file_gen_strip s) = file_gen_strip s \<longleftrightarrow>
      py_find (file_gen_strip s) ''<pad>'' = - 1 \<and>
      py_find (file_gen_strip s) ''<c-begin>'' = - 1) \<and>
   (py_find s ''<pad>'' = - 1 \<and> NL \<notin> set s \<longrightarrow> strip_markers s = s)"
proof -
  let ?t = "strip_markers s"
  let ?u = "file_gen_strip s"
  have nl: "NL \<notin> set ?t"
    by (simp add: strip_markers_def newline_replaced)
  have nlu: "NL \<notin> set ?u"
    by (simp add: file_gen_strip_def newline_replaced)
  have "strip_markers ?t = ?t" if "py_find ?t ''<pad>'' = - 1"
  proof -
    from that have "py_replace ''<pad>'' [] ?t = ?t"
      by (rule py_find_absent_replace)
    with nl show ?thesis
      by (simp add: strip_markers_def [of ?t] newline_absent_replace)
  qed
  moreover have "strip_markers ?t \<noteq> ?t" if "py_find ?t ''<pad>'' \<noteq> - 1"
  proof -
    from that have "length (py_replace ''<pad>'' [] ?t) < length ?t"
      by (rule py_replace_length_less)
    then have "length (strip_markers ?t) < length ?t"
      by (simp add: strip_markers_def [of ?t] newline_replace_length)
    then show ?thesis by auto
  qed
  moreover have "file_gen_strip ?u = ?u"
    if "py_find ?u ''<pad>'' = - 1" "py_find ?u ''<c-begin>'' = - 1"
  proof -
    from that have "py_replace ''<c-begin>'' [] (py_replace ''<pad>'' [] ?u) = ?u"
      by (simp add: py_find_absent_replace)
    with nlu show ?thesis
      by (simp add: file_gen_strip_def [of ?u] newline_absent_replace)
  qed
  moreover have "file_gen_strip ?u \<noteq> ?u" if "py_find ?u ''<pad>'' \<noteq> - 1"
  proof -
    from that have "length (py_replace ''<pad>'' [] ?u) < length ?u"
      by (rule py_replace_length_less)
    moreover have "length (py_replace ''<c-begin>'' [] (py_replace ''<pad>'' [] ?u)) \<le>
        length (py_replace ''<pad>'' [] ?u)"
      by (rule py_replace_length_le)
    ultimately have "length (file_gen_strip ?u) < length ?u"
      by (simp add: file_gen_strip_def [of ?u] newline_replace_length)
    then show ?thesis by auto
  qed
  moreover have "file_gen_strip ?u \<noteq> ?u"
    if "py_find ?u ''<pad>'' = - 1" "py_find ?u ''<c-begin>'' \<noteq> - 1"
  proof -
    from that(1) have "py_replace ''<pad>'' [] ?u = ?u"
      by (rule py_find_absent_replace)
    moreover from that(2) have "length (py_replace ''<c-begin>'' [] ?u) < length ?u"
      by (rule py_replace_length_less)
    ultimately have "length (file_gen_strip ?u) < length ?u"
      by (simp add: file_gen_strip_def [of ?u] newline_replace_length)
    then show ?thesis by auto
  qed
  moreover have "strip_markers s = s" if "py_find s ''<pad>'' = - 1" "NL \<notin> set s"
    using that by (simp add: strip_markers_def py_find_absent_replace newline_absent_replace)
  ultimately show ?thesis by blast
qed

theorem strip_markers_idempotent_witness:
  "py_find (strip_markers (''a<pad>b'' @ [NL] @ ''c'')) ''<pad>'' = - 1 \<and>
   strip_markers (strip_markers (''a<pad>b'' @ [NL] @ ''c'')) = strip_markers (''a<pad>b'' @ [NL] @ ''c'') \<and>
   file_gen_strip (file_gen_strip ''<c-begin>a<pad>b'') = file_gen_strip ''<c-begin>a<pad>b'' \<and>
   strip_markers ''ab c'' = ''ab c''"
  using strip_markers_idempotent_iff [of "''a<pad>b'' @ [NL] @ ''c''"]
    strip_markers_idempotent_iff [of "''<c-begin>a<pad>b''"]
    strip_markers_idempotent_iff [of "''ab c''"]
  by (simp add: strip_markers_def file_gen_strip_def NL_def)

text \<open>
  Removing the marker inside \<open><pa<pad>d>\<close> joins up a new marker, which a second pass
  removes.
\<close>

theorem strip_markers_not_idempotent:
  "strip_markers (strip_markers ''<pa<pad>d>'') \<noteq> strip_markers ''<pa<pad>d>'' \<and>
   file_gen_strip (file_gen_strip ''<pa<pad>d>'') \<noteq> file_gen_strip ''<pa<pad>d>''"
  by (simp add: strip_markers_def file_gen_strip_def NL_def)

text \<open>
  C10. A stop token that is configured (not empty) and does not occur in the decoded text
  gives the end index \<open>-1\<close>. The interactive driver then keeps the decoded text without
  its last character; the batch driver keeps what it keeps with no stop token, the text
  from the marker on, without its last character. The replacements are applied to the
  text so kept.
\<close>

theorem stop_token_absent:
  assumes "t \<noteq> []" and "py_find text t = - 1"
  shows "stop_index text (Some t) = Some (- 1) \<and>
         prompt_gen_truncate text (Some t) = butlast text \<and>
         prompt_gen_text text (Some t) = strip_markers (butlast text) \<and>
         file_gen_truncate text (Some t) = butlast (file_gen_truncate text None) \<and>
         file_gen_text text (Some t) = file_gen_strip (butlast (file_gen_truncate text None))"
proof -
  from assms have i: "stop_index text (Some t) = Some (- 1)"
    by (simp add: stop_index_def)
  have n: "stop_index text None = None"
    by (simp add: stop_index_def)
  have whole: "py_slice text None None = text"
    by (simp add: py_slice_def)
  have p: "prompt_gen_truncate text (Some t) = butlast text"
    by (simp add: prompt_gen_truncate_def i py_slice_end_minus_one whole)
  have f: "file_gen_truncate text (Some t) = butlast (file_gen_truncate text None)"
    by (simp add: file_gen_truncate_def i n py_slice_end_minus_one)
  from i p f show ?thesis
    by (simp add: prompt_gen_text_def file_gen_text_def)
qed

theorem stop_token_absent_witness:
  "''X'' \<noteq> [] \<and> py_find ''ab<c-begin>cd'' ''X'' = - 1 \<and>
   prompt_gen_text ''ab<c-begin>cd'' (Some ''X'') = ''ab<c-begin>c'' \<and>
   file_gen_truncate ''ab<c-begin>cd'' (Some ''X'') = ''<c-begin>c''"
  using stop_token_absent [of "''X''" "''ab<c-begin>cd''"]
  by (simp add: strip_markers_def NL_def file_gen_truncate_def stop_index_def py_slice_def
      slice_index_def)

text \<open>
  In the batch driver the text emitted for the decoded text \<open>ab<c-begin>cd\<close> and the
  absent stop token \<open>X\<close> is \<open>c\<close>, not the decoded text without its last character.
\<close>

theorem stop_token_absent_counterexample:
  "py_find ''ab<c-begin>cd'' ''X'' = - 1 \<and>
   file_gen_text ''ab<c-begin>cd'' (Some ''X'') = ''c'' \<and>
   butlast ''ab<c-begin>cd'' = ''ab<c-begin>c''"
  by (simp add: file_gen_text_def file_gen_strip_def file_gen_truncate_def stop_index_def
      py_slice_def slice_index_def NL_def)

end
